theory Spec2Isabelle
  imports Complex_Main
begin

section \<open>Types and configuration\<close>

text \<open>
  The session controller of StoryBrush (\<^verbatim>\<open>App\<close> with its handlers \<^verbatim>\<open>handleUserSend\<close> and
  \<^verbatim>\<open>handleNewStory\<close>) and the two Gemini clients it calls (\<^verbatim>\<open>sendMessageToWriter\<close>,
  \<^verbatim>\<open>generateIllustration\<close>). Strings are byte lists: a character outside ASCII stands as
  its UTF-8 bytes. The record fields \<^verbatim>\<open>id\<close>, \<^verbatim>\<open>type\<close> and \<^verbatim>\<open>text\<close> of the source carry a suffix
  here, their plain names being taken.
\<close>

datatype Sender = User | Assistant

datatype MessageType = Text | Image

record Message =
  id_msg :: string
  sender :: Sender
  type_msg :: MessageType
  content :: string
  timestamp :: int

datatype AppState = Setup | Writing | WaitingForArt | Painting

section \<open>The Gemini service\<close>

text \<open>A value thrown by the program or by a rejected promise: an \<^verbatim>\<open>Error\<close> with its message.\<close>

datatype JsError = Error string

text \<open>
  The part of a \<^verbatim>\<open>GenerateContentResponse\<close> that the program reads: \<^verbatim>\<open>response.text\<close> and
  \<^verbatim>\<open>response.candidates?.[0]?.content?.parts\<close>, each part with an optional
  \<^verbatim>\<open>inlineData\<close>, whose two fields are taken to be present. \<^verbatim>\<open>None\<close> is JavaScript's
  \<^verbatim>\<open>undefined\<close>.
\<close>

record Blob =
  mimeType :: string
  data :: string

record Part =
  inlineData :: "Blob option"

record Content =
  parts :: "Part list option"

record Candidate =
  content_cand :: "Content option"

record GenerateContentResponse =
  text_resp :: "string option"
  candidates :: "Candidate list option"

record ChatConfig =
  model :: string
  systemInstruction :: string
  temperature :: rat

text \<open>
  A \<^verbatim>\<open>Chat\<close> object is known by its identity: \<^verbatim>\<open>handle\<close> is the number of chats that
  \<^verbatim>\<open>ai.chats.create\<close> had made before it, so that two calls never return the same object.
\<close>

record Chat =
  handle :: nat
  config :: ChatConfig

text \<open>
  What lies outside the program is an environment of answers, each indexed by the number
  of earlier calls of its kind: the base-36 rendering of the \<open>n\<close>-th \<^verbatim>\<open>Math.random()\<close>, the
  \<open>n\<close>-th \<^verbatim>\<open>Date.now()\<close>, and how the \<open>n\<close>-th \<^verbatim>\<open>chatSession.sendMessage\<close> and the \<open>n\<close>-th
  \<^verbatim>\<open>ai.models.generateContent\<close> settle (\<open>Inl\<close>: the promise is rejected).
\<close>

record Env =
  loadTime :: int
  random36 :: "nat \<Rightarrow> string"
  dateNow :: "nat \<Rightarrow> int"
  sendMessage_settles :: "nat \<Rightarrow> JsError + GenerateContentResponse"
  generateContent_settles :: "nat \<Rightarrow> JsError + GenerateContentResponse"

text \<open>
  The state: the three React state variables of \<^verbatim>\<open>App\<close>, the module variable
  \<^verbatim>\<open>chatSession\<close>, and the trace of the calls made to the outside.
\<close>

record World =
  messages :: "Message list"
  appState :: AppState
  lastChapterText :: string
  chatSession :: "Chat option"
  chatsCreated :: nat
  randomCalls :: nat
  dateNowCalls :: nat
  writerCalls :: "(Chat \<times> string) list"
  imageCalls :: "(string \<times> string) list"
  console :: "(string \<times> JsError) list"

subsection \<open>Effects: state that survives an exception\<close>

text \<open>
  A statement runs in a world and either completes with a value or throws; the world it
  leaves behind is kept in both cases, as the state updates made before a \<^verbatim>\<open>throw\<close> are.
\<close>

type_synonym 'a Eff = "World \<Rightarrow> (JsError + 'a) \<times> World"

definition ret :: "'a \<Rightarrow> 'a Eff" where
  "ret x = (\<lambda>w. (Inr x, w))"

definition throw :: "JsError \<Rightarrow> 'a Eff" where
  "throw e = (\<lambda>w. (Inl e, w))"

definition bnd :: "'a Eff \<Rightarrow> ('a \<Rightarrow> 'b Eff) \<Rightarrow> 'b Eff" where
  "bnd m f = (\<lambda>w. case m w of (Inl e, w') \<Rightarrow> (Inl e, w') | (Inr a, w') \<Rightarrow> f a w')"

definition seq :: "'a Eff \<Rightarrow> 'b Eff \<Rightarrow> 'b Eff" where
  "seq m n = bnd m (\<lambda>_. n)"

definition try_catch :: "'a Eff \<Rightarrow> (JsError \<Rightarrow> 'a Eff) \<Rightarrow> 'a Eff" where
  "try_catch m h = (\<lambda>w. case m w of (Inl e, w') \<Rightarrow> h e w' | (Inr a, w') \<Rightarrow> (Inr a, w'))"

definition modify :: "(World \<Rightarrow> World) \<Rightarrow> unit Eff" where
  "modify f = (\<lambda>w. (Inr (), f w))"

subsection \<open>Calls to the outside\<close>

definition Date_now :: "Env \<Rightarrow> int Eff" where
  "Date_now env =
     (\<lambda>w. (Inr (dateNow env (dateNowCalls w)), w\<lparr>dateNowCalls := Suc (dateNowCalls w)\<rparr>))"

definition Math_random_toString36 :: "Env \<Rightarrow> string Eff" where
  "Math_random_toString36 env =
     (\<lambda>w. (Inr (random36 env (randomCalls w)), w\<lparr>randomCalls := Suc (randomCalls w)\<rparr>))"

definition console_error :: "string \<Rightarrow> JsError \<Rightarrow> unit Eff" where
  "console_error label e = modify (\<lambda>w. w\<lparr>console := console w @ [(label, e)]\<rparr>)"

definition ai_chats_create :: "ChatConfig \<Rightarrow> Chat Eff" where
  "ai_chats_create cfg =
     (\<lambda>w. (Inr \<lparr>handle = chatsCreated w, config = cfg\<rparr>,
           w\<lparr>chatsCreated := Suc (chatsCreated w)\<rparr>))"

definition chat_sendMessage :: "Env \<Rightarrow> Chat \<Rightarrow> string \<Rightarrow> GenerateContentResponse Eff" where
  "chat_sendMessage env chat message =
     (\<lambda>w. (sendMessage_settles env (length (writerCalls w)),
           w\<lparr>writerCalls := writerCalls w @ [(chat, message)]\<rparr>))"

definition ai_models_generateContent :: "Env \<Rightarrow> string \<Rightarrow> string \<Rightarrow> GenerateContentResponse Eff" where
  "ai_models_generateContent env mdl prompt =
     (\<lambda>w. (generateContent_settles env (length (imageCalls w)),
           w\<lparr>imageCalls := imageCalls w @ [(mdl, prompt)]\<rparr>))"

subsection \<open>The writer\<close>

definition SYSTEM_INSTRUCTION :: string where
  "SYSTEM_INSTRUCTION =
     [CHR 0x0A] @
     ''You are '' @ [CHR 0x22] @ ''StoryBrush,'' @ [CHR 0x22] @ '' a collaborative Book Agent. '' @
     [CHR 0x0A] @
     ''You are the Writer, and the User is the Art Director.'' @
     [CHR 0x0A, CHR 0x0A] @
     ''Your goal is to co-create an illustrated book with the user.'' @
     [CHR 0x0A, CHR 0x0A] @
     ''The Workflow Loop:'' @
     [CHR 0x0A] @
     ''1. **Write Chapter:** You generate the next chapter of the story.'' @
     [CHR 0x0A] @
     ''   - Constraint: Keep it under 150 words.'' @
     [CHR 0x0A] @
     ''   - Style: Adapt the writing style to match the genre implied by the user's topic.'' @
     [CHR 0x0A] @
     ''   - Formatting: Use bold text for the Chapter Title.'' @
     [CHR 0x0A, CHR 0x0A] @
     ''2. **Pause for Art Direction:** Immediately after the text, ask the user to describe '' @
     ''what the illustration for this page should look like.'' @
     [CHR 0x0A] @
     ''   - Output EXACTLY this phrase at the end: '' @
     [CHR 0x22, CHR 0xF0, CHR 0x9F, CHR 0x8E, CHR 0xA8] @
     '' **Art Director:** Please describe the illustration for this chapter. What do you see?'' @
     [CHR 0x22, CHR 0x0A, CHR 0x0A] @
     ''Tone:'' @
     [CHR 0x0A] @
     ''- Adapt your personality to fit the genre.'' @
     [CHR 0x0A] @
     ''- Be supportive but professional.'' @
     [CHR 0x0A]"

definition startStorySession :: "Chat Eff" where
  "startStorySession =
     bnd (ai_chats_create
            \<lparr>model = ''gemini-2.5-flash'',
             systemInstruction = SYSTEM_INSTRUCTION,
             temperature = 8 / 10\<rparr>) (\<lambda>chat.
     seq (modify (\<lambda>w. w\<lparr>chatSession := Some chat\<rparr>))
         (ret chat))"

text \<open>\<^verbatim>\<open>a || b\<close> on an optional string: \<^verbatim>\<open>undefined\<close> and the empty string are falsy.\<close>

definition or_else :: "string option \<Rightarrow> string \<Rightarrow> string" where
  "or_else a b = (case a of None \<Rightarrow> b | Some s \<Rightarrow> if s = [] then b else s)"

definition sendMessageToWriter :: "Env \<Rightarrow> string \<Rightarrow> string Eff" where
  "sendMessageToWriter env message =
     (\<lambda>w. case chatSession w of
        None \<Rightarrow> throw (Error ''Chat session not initialized.'') w
      | Some chat \<Rightarrow>
          try_catch
            (bnd (chat_sendMessage env chat message) (\<lambda>response.
             ret (or_else (text_resp response)
                    ''I'm having trouble writing right now. Let's try again.'')))
            (\<lambda>error.
             seq (console_error ''Error sending message to writer:'' error)
                 (throw error)) w)"

subsection \<open>The illustrator\<close>

definition illustrationPrompt :: "string \<Rightarrow> string \<Rightarrow> string" where
  "illustrationPrompt userDescription storyContext =
     [CHR 0x0A] @
     ''      Create a high-quality photorealistic image.'' @
     [CHR 0x0A] @
     ''      Scene Description: '' @ userDescription @
     [CHR 0x0A] @
     ''      Story Context: '' @ storyContext @
     [CHR 0x0A] @
     ''      Directives:'' @
     [CHR 0x0A] @
     ''      1. **Style**: Photorealistic, cinematic lighting, 8k resolution, highly detailed, '' @
     ''photography style.'' @
     [CHR 0x0A] @
     ''      2. **Mood**: Adapt the lighting and atmosphere to the story's genre, but maintain '' @
     ''a realistic look.'' @
     [CHR 0x0A] @
     ''      3. **Character Consistency**: Ensure the main characters match previous '' @
     ''descriptions in the context.'' @
     [CHR 0x0A] @
     ''    ''"

text \<open>\<^verbatim>\<open>response.candidates?.[0]?.content?.parts || []\<close>\<close>

definition partsOf :: "GenerateContentResponse \<Rightarrow> Part list" where
  "partsOf response =
     (case candidates response of
        None \<Rightarrow> []
      | Some [] \<Rightarrow> []
      | Some (c # _) \<Rightarrow>
          (case content_cand c of
             None \<Rightarrow> []
           | Some ct \<Rightarrow> (case parts ct of None \<Rightarrow> [] | Some ps \<Rightarrow> ps)))"

text \<open>The \<^verbatim>\<open>for\<close> loop over the parts: the first part with inline data ends it.\<close>

fun firstInlineData :: "Part list \<Rightarrow> string option" where
  "firstInlineData [] = None"
| "firstInlineData (part # rest) =
     (case inlineData part of
        Some d \<Rightarrow> Some (''data:'' @ mimeType d @ '';base64,'' @ data d)
      | None \<Rightarrow> firstInlineData rest)"

definition generateIllustration :: "Env \<Rightarrow> string \<Rightarrow> string \<Rightarrow> string Eff" where
  "generateIllustration env userDescription storyContext =
     try_catch
       (bnd (ai_models_generateContent env ''gemini-2.5-flash-image''
               (illustrationPrompt userDescription storyContext)) (\<lambda>response.
        case firstInlineData (partsOf response) of
          Some url \<Rightarrow> ret url
        | None \<Rightarrow> throw (Error ''No image generated.'')))
       (\<lambda>error.
        seq (console_error ''Error generating illustration:'' error)
            (throw error))"

section \<open>The main component\<close>

definition substr :: "nat \<Rightarrow> nat \<Rightarrow> string \<Rightarrow> string" where
  "substr start len s = take len (drop start s)"

definition generateId :: "Env \<Rightarrow> string Eff" where
  "generateId env = bnd (Math_random_toString36 env) (\<lambda>r. ret (substr 2 9 r))"

definition INITIAL_MESSAGE :: "Env \<Rightarrow> Message" where
  "INITIAL_MESSAGE env =
     \<lparr>id_msg = ''init'',
      sender = Assistant,
      type_msg = Text,
      content =
        ''Hello! I am **StoryBrush**, your creative partner. '' @
        [CHR 0x0A, CHR 0x0A] @
        ''I'm ready to write a new book with you. It can be any genre'' @
        [CHR 0xE2, CHR 0x80, CHR 0x94] @
        ''Fantasy, Sci-Fi, Mystery, Romance, Horror, or anything you like! '' @
        [CHR 0x0A, CHR 0x0A] @
        ''What should our story be about?'',
      timestamp = loadTime env\<rparr>"

definition setMessages :: "Message list \<Rightarrow> unit Eff" where
  "setMessages ms = modify (\<lambda>w. w\<lparr>messages := ms\<rparr>)"

definition setAppState :: "AppState \<Rightarrow> unit Eff" where
  "setAppState st = modify (\<lambda>w. w\<lparr>appState := st\<rparr>)"

definition setLastChapterText :: "string \<Rightarrow> unit Eff" where
  "setLastChapterText t = modify (\<lambda>w. w\<lparr>lastChapterText := t\<rparr>)"

definition addMessage :: "Env \<Rightarrow> Sender \<Rightarrow> MessageType \<Rightarrow> string \<Rightarrow> unit Eff" where
  "addMessage env sndr ty cont =
     bnd (generateId env) (\<lambda>i.
     bnd (Date_now env) (\<lambda>t.
     modify (\<lambda>w. w\<lparr>messages := messages w @
       [\<lparr>id_msg = i, sender = sndr, type_msg = ty, content = cont, timestamp = t\<rparr>]\<rparr>)))"

definition handleNewStory :: "Env \<Rightarrow> unit Eff" where
  "handleNewStory env =
     seq (setMessages [INITIAL_MESSAGE env])
    (seq (setAppState Setup)
    (seq (setLastChapterText '''')
    (seq startStorySession
         (ret ()))))"

definition nextChapterPrompt :: "string \<Rightarrow> string" where
  "nextChapterPrompt text =
     ''The Art Director has provided the illustration for the previous chapter. It depicts: '' @
     [CHR 0x22] @ text @ [CHR 0x22] @
     ''. Please write the next chapter now.''"

text \<open>
  \<^verbatim>\<open>handleUserSend\<close> reads \<^verbatim>\<open>appState\<close> and \<^verbatim>\<open>lastChapterText\<close> as they were when it was
  called (they are constants of the render that made the handler). Here it runs to its
  end: both awaited calls settle, and no other command runs in between. The same handler
  cut at its awaits, with other commands in between, follows further down.
\<close>

definition handleUserSend :: "Env \<Rightarrow> string \<Rightarrow> unit Eff" where
  "handleUserSend env text =
     (\<lambda>w0.
       if appState w0 = Setup then
         (seq (addMessage env User Text text)
         (seq (setAppState Writing)
         (try_catch
            (bnd (sendMessageToWriter env
                    (''The story is about: '' @ text @ ''. Let's begin!'')) (\<lambda>response.
             seq (addMessage env Assistant Text response)
            (seq (setLastChapterText response)
                 (setAppState WaitingForArt))))
            (\<lambda>error.
             seq (addMessage env Assistant Text
                    ''I encountered an issue starting the story. Please try again.'')
                 (setAppState Setup))))) w0
       else if appState w0 = WaitingForArt then
         (seq (addMessage env User Text text)
         (seq (setAppState Painting)
         (try_catch
            (bnd (generateIllustration env text (lastChapterText w0)) (\<lambda>imageUrl.
             seq (addMessage env Assistant Image imageUrl)
            (seq (setAppState Writing)
            (bnd (sendMessageToWriter env (nextChapterPrompt text)) (\<lambda>nextChapterResponse.
             seq (addMessage env Assistant Text nextChapterResponse)
            (seq (setLastChapterText nextChapterResponse)
                 (setAppState WaitingForArt)))))))
            (\<lambda>error.
             seq (addMessage env Assistant Text
                    (''I was unable to generate that illustration. '' @
                     ''Could you provide a different description?''))
                 (setAppState WaitingForArt))))) w0
       else ret () w0)"

text \<open>
  The module is loaded and \<^verbatim>\<open>App\<close> rendered for the first time (\<^verbatim>\<open>useState\<close> with its initial
  values, \<^verbatim>\<open>chatSession\<close> still \<^verbatim>\<open>null\<close>); the mount effect then starts the story session.
\<close>

definition initialWorld :: "Env \<Rightarrow> World" where
  "initialWorld env =
     \<lparr>messages = [INITIAL_MESSAGE env],
      appState = Setup,
      lastChapterText = '''',
      chatSession = None,
      chatsCreated = 0,
      randomCalls = 0,
      dateNowCalls = 0,
      writerCalls = [],
      imageCalls = [],
      console = []\<rparr>"

definition mounted :: "Env \<Rightarrow> World" where
  "mounted env = snd (startStorySession (initialWorld env))"

section \<open>A submission, await by await\<close>

text \<open>
  \<^verbatim>\<open>handleUserSend\<close> is an \<^verbatim>\<open>async\<close> function: it runs until an awaited call has been
  made, lets other events in, and goes on when the call has settled. Each client function
  is cut at its own \<^verbatim>\<open>await\<close>: the part that makes the call, which gives the call's number, and
  the part that runs once the call with that number has settled.
\<close>

definition sendMessageToWriter_call :: "string \<Rightarrow> nat Eff" where
  "sendMessageToWriter_call message =
     (\<lambda>w. case chatSession w of
        None \<Rightarrow> throw (Error ''Chat session not initialized.'') w
      | Some chat \<Rightarrow>
          (Inr (length (writerCalls w)), w\<lparr>writerCalls := writerCalls w @ [(chat, message)]\<rparr>))"

definition sendMessageToWriter_settled :: "Env \<Rightarrow> nat \<Rightarrow> string Eff" where
  "sendMessageToWriter_settled env n =
     try_catch
       (bnd (\<lambda>w. (sendMessage_settles env n, w)) (\<lambda>response.
        ret (or_else (text_resp response)
               ''I'm having trouble writing right now. Let's try again.'')))
       (\<lambda>error.
        seq (console_error ''Error sending message to writer:'' error)
            (throw error))"

definition generateIllustration_call :: "string \<Rightarrow> string \<Rightarrow> nat Eff" where
  "generateIllustration_call userDescription storyContext =
     (\<lambda>w. (Inr (length (imageCalls w)),
           w\<lparr>imageCalls := imageCalls w @
               [(''gemini-2.5-flash-image'',
                 illustrationPrompt userDescription storyContext)]\<rparr>))"

definition generateIllustration_settled :: "Env \<Rightarrow> nat \<Rightarrow> string Eff" where
  "generateIllustration_settled env n =
     try_catch
       (bnd (\<lambda>w. (generateContent_settles env n, w)) (\<lambda>response.
        case firstInlineData (partsOf response) of
          Some url \<Rightarrow> ret url
        | None \<Rightarrow> throw (Error ''No image generated.'')))
       (\<lambda>error.
        seq (console_error ''Error generating illustration:'' error)
            (throw error))"

text \<open>
  Where a submission waits: at the writer call of the \<^verbatim>\<open>Setup\<close> branch, at the illustrator
  call (the user's text is needed afterwards), or at the chained writer call. Each holds
  the number of the call it waits for.
\<close>

datatype Pending =
    AwaitFirstChapter nat
  | AwaitIllustration nat string
  | AwaitNextChapter nat

text \<open>
  The handler up to its first \<^verbatim>\<open>await\<close>. It returns the place where it waits, or nothing
  when it has ended. A call that throws before it is made (no chat session) lets the
  handler go on to its \<^verbatim>\<open>catch\<close> block at once.
\<close>

definition handleUserSend_start :: "Env \<Rightarrow> string \<Rightarrow> Pending list Eff" where
  "handleUserSend_start env text =
     (\<lambda>w0.
       if appState w0 = Setup then
         (seq (addMessage env User Text text)
         (seq (setAppState Writing)
         (try_catch
            (bnd (sendMessageToWriter_call
                    (''The story is about: '' @ text @ ''. Let's begin!'')) (\<lambda>n.
             ret [AwaitFirstChapter n]))
            (\<lambda>error.
             seq (addMessage env Assistant Text
                    ''I encountered an issue starting the story. Please try again.'')
            (seq (setAppState Setup)
                 (ret [])))))) w0
       else if appState w0 = WaitingForArt then
         (seq (addMessage env User Text text)
         (seq (setAppState Painting)
         (try_catch
            (bnd (generateIllustration_call text (lastChapterText w0)) (\<lambda>n.
             ret [AwaitIllustration n text]))
            (\<lambda>error.
             seq (addMessage env Assistant Text
                    (''I was unable to generate that illustration. '' @
                     ''Could you provide a different description?''))
            (seq (setAppState WaitingForArt)
                 (ret [])))))) w0
       else ret [] w0)"

text \<open>The handler from the place where it waited, once the call has settled.\<close>

fun handleUserSend_resume :: "Env \<Rightarrow> Pending \<Rightarrow> Pending list Eff" where
  "handleUserSend_resume env (AwaitFirstChapter n) =
     try_catch
       (bnd (sendMessageToWriter_settled env n) (\<lambda>response.
        seq (addMessage env Assistant Text response)
       (seq (setLastChapterText response)
       (seq (setAppState WaitingForArt)
            (ret [])))))
       (\<lambda>error.
        seq (addMessage env Assistant Text
               ''I encountered an issue starting the story. Please try again.'')
       (seq (setAppState Setup)
            (ret [])))"
| "handleUserSend_resume env (AwaitIllustration n text) =
     try_catch
       (bnd (generateIllustration_settled env n) (\<lambda>imageUrl.
        seq (addMessage env Assistant Image imageUrl)
       (seq (setAppState Writing)
       (bnd (sendMessageToWriter_call (nextChapterPrompt text)) (\<lambda>m.
        ret [AwaitNextChapter m])))))
       (\<lambda>error.
        seq (addMessage env Assistant Text
               (''I was unable to generate that illustration. '' @
                ''Could you provide a different description?''))
       (seq (setAppState WaitingForArt)
            (ret [])))"
| "handleUserSend_resume env (AwaitNextChapter m) =
     try_catch
       (bnd (sendMessageToWriter_settled env m) (\<lambda>nextChapterResponse.
        seq (addMessage env Assistant Text nextChapterResponse)
       (seq (setLastChapterText nextChapterResponse)
       (seq (setAppState WaitingForArt)
            (ret [])))))
       (\<lambda>error.
        seq (addMessage env Assistant Text
               (''I was unable to generate that illustration. '' @
                ''Could you provide a different description?''))
       (seq (setAppState WaitingForArt)
            (ret [])))"

text \<open>What a part of the handler leaves waiting; nothing, had it thrown.\<close>

definition suspended :: "JsError + Pending list \<Rightarrow> Pending list" where
  "suspended r = (case r of Inl e \<Rightarrow> [] | Inr ps \<Rightarrow> ps)"

section \<open>Reachable worlds\<close>

text \<open>
  The application is mounted; from then on the user may click \<^verbatim>\<open>New Story\<close> or submit a
  text at any moment, also while calls are pending, and a pending call may settle at any
  moment, in any order. \<open>running env w ps\<close>: the world \<open>w\<close> has come about, with the
  submissions \<open>ps\<close> waiting. A world is reachable when it has come about with some
  submissions waiting.
\<close>

inductive running :: "Env \<Rightarrow> World \<Rightarrow> Pending list \<Rightarrow> bool" for env :: Env where
  mount: "running env (mounted env) []"
| newStory: "running env w ps \<Longrightarrow> running env (snd (handleNewStory env w)) ps"
| submit:
    "running env w ps \<Longrightarrow>
     running env (snd (handleUserSend_start env text w))
       (ps @ suspended (fst (handleUserSend_start env text w)))"
| settle:
    "running env w (ps1 @ p # ps2) \<Longrightarrow>
     running env (snd (handleUserSend_resume env p w))
       (ps1 @ ps2 @ suspended (fst (handleUserSend_resume env p w)))"

definition reachable :: "Env \<Rightarrow> World \<Rightarrow> bool" where
  "reachable env w = (\<exists>ps. running env w ps)"

section \<open>Vocabulary of the properties\<close>

text \<open>A turn record of the given origin, kind and payload.\<close>

definition turn :: "Message \<Rightarrow> Sender \<Rightarrow> MessageType \<Rightarrow> string \<Rightarrow> bool" where
  "turn m sndr ty cont = (sender m = sndr \<and> type_msg m = ty \<and> content m = cont)"

text \<open>
  The ids that \<^verbatim>\<open>generateId\<close> returned for the records added since the log was last reset:
  one call for each record of the log but the greeting, the latest calls made.
\<close>

definition logDraws :: "Env \<Rightarrow> World \<Rightarrow> string list" where
  "logDraws env w =
     map (\<lambda>k. substr 2 9 (random36 env k))
       [Suc (randomCalls w) - length (messages w)..<randomCalls w]"

text \<open>
  The ids of the log are \<^verbatim>\<open>init\<close> followed by the ids generated since the log was last
  reset, in the order of their generation.
\<close>

definition idsFollowDraws :: "Env \<Rightarrow> World \<Rightarrow> bool" where
  "idsFollowDraws env w =
     (\<exists>a. a \<le> randomCalls w \<and>
        map id_msg (messages w) =
          ''init'' # map (\<lambda>k. substr 2 9 (random36 env k)) [a..<randomCalls w])"

text \<open>A statement keeps a property of the world, whether it completes or throws.\<close>

definition preserves :: "(World \<Rightarrow> bool) \<Rightarrow> 'a Eff \<Rightarrow> bool" where
  "preserves P m = (\<forall>w. P w \<longrightarrow> P (snd (m w)))"

text \<open>A part of the handler, followed at once by the part after the call it waits for.\<close>

definition resumeAtOnce :: "Env \<Rightarrow> Pending list Eff \<Rightarrow> Pending list Eff" where
  "resumeAtOnce env m =
     bnd m (\<lambda>ps. case ps of [] \<Rightarrow> ret [] | p # _ \<Rightarrow> handleUserSend_resume env p)"

definition writerFallback :: string where
  "writerFallback = ''I'm having trouble writing right now. Let's try again.''"

definition setupRetryNotice :: string where
  "setupRetryNotice = ''I encountered an issue starting the story. Please try again.''"

definition artRetryNotice :: string where
  "artRetryNotice =
     ''I was unable to generate that illustration. Could you provide a different description?''"

section \<open>Sample environments and worlds\<close>

definition chapterOne :: GenerateContentResponse where
  "chapterOne = \<lparr>text_resp = Some ''**Chapter One** The tide was turning.'', candidates = None\<rparr>"

definition chapterTwo :: GenerateContentResponse where
  "chapterTwo = \<lparr>text_resp = Some ''**Chapter Two** The harbour fell silent.'', candidates = None\<rparr>"

definition emptyReply :: GenerateContentResponse where
  "emptyReply = \<lparr>text_resp = Some [], candidates = Some []\<rparr>"

definition painting :: GenerateContentResponse where
  "painting =
     \<lparr>text_resp = None,
      candidates = Some
        [\<lparr>content_cand = Some \<lparr>parts = Some
           [\<lparr>inlineData = None\<rparr>,
            \<lparr>inlineData = Some \<lparr>mimeType = ''image/png'', data = ''iVBORw0KGgo=''\<rparr>\<rparr>]\<rparr>\<rparr>]\<rparr>"

definition unavailable :: JsError where
  "unavailable = Error ''503 Service Unavailable''"

text \<open>Base-36 renderings of six random numbers, as \<^verbatim>\<open>toString(36)\<close> prints them.\<close>

definition demoRandom36 :: "nat \<Rightarrow> string" where
  "demoRandom36 n =
     (if n = 0 then ''0.y4fkybglew''
      else if n = 1 then ''0.e7ove782rx''
      else if n = 2 then ''0.1qku44n3m1ej''
      else if n = 3 then ''0.tkdcqjb718m''
      else if n = 4 then ''0.3dzqdl50kpw''
      else ''0.kzajtgomd4g'')"

definition demoEnv ::
  "(nat \<Rightarrow> string) \<Rightarrow> (nat \<Rightarrow> JsError + GenerateContentResponse) \<Rightarrow>
   (nat \<Rightarrow> JsError + GenerateContentResponse) \<Rightarrow> Env" where
  "demoEnv rnd writer illustrator =
     \<lparr>loadTime = 1762128000000,
      random36 = rnd,
      dateNow = (\<lambda>n. 1762128000000 + 1000 * int (Suc n)),
      sendMessage_settles = writer,
      generateContent_settles = illustrator\<rparr>"

text \<open>Every call succeeds.\<close>

definition allGood :: Env where
  "allGood =
     demoEnv demoRandom36 (\<lambda>n. if n = 0 then Inr chapterOne else Inr chapterTwo)
       (\<lambda>n. Inr painting)"

text \<open>The writer is down from the start.\<close>

definition writerDown :: Env where
  "writerDown = demoEnv demoRandom36 (\<lambda>n. Inl unavailable) (\<lambda>n. Inr painting)"

text \<open>The writer answers once, then is down.\<close>

definition writerDownLater :: Env where
  "writerDownLater =
     demoEnv demoRandom36 (\<lambda>n. if n = 0 then Inr chapterOne else Inl unavailable)
       (\<lambda>n. Inr painting)"

text \<open>The image model answers with text only: there is no image in its response.\<close>

definition noImage :: Env where
  "noImage =
     demoEnv demoRandom36 (\<lambda>n. if n = 0 then Inr chapterOne else Inr chapterTwo)
       (\<lambda>n. Inr chapterTwo)"

text \<open>The writer's first answer is empty.\<close>

definition emptyWriter :: Env where
  "emptyWriter = demoEnv demoRandom36 (\<lambda>n. Inr emptyReply) (\<lambda>n. Inr painting)"

text \<open>
  Two draws of \<^verbatim>\<open>Math.random()\<close> that differ by \<^verbatim>\<open>2 ** -52\<close> (0.3141592653589793 and
  0.31415926535897953): their base-36 renderings agree on the first nine digits after the
  point.
\<close>

definition closeDraws :: Env where
  "closeDraws =
     demoEnv (\<lambda>n. if n = 0 then ''0.bb5exfivbcc'' else ''0.bb5exfivbd'')
       (\<lambda>n. Inr chapterOne) (\<lambda>n. Inr painting)"

text \<open>
  The same id drawn before and after a reset: the first and the third draw agree on their
  first nine digits.
\<close>

definition repeatedDraw :: Env where
  "repeatedDraw =
     demoEnv
       (\<lambda>n. if n = 0 then ''0.bb5exfivbcc''
            else if n = 1 then ''0.y4fkybglew''
            else if n = 2 then ''0.bb5exfivbd''
            else ''0.e7ove782rx'')
       (\<lambda>n. Inr chapterOne) (\<lambda>n. Inr painting)"

text \<open>
  The world once the first chapter has been written; the worlds while the first chapter
  is awaited and while the first illustration is awaited.
\<close>

definition firstChapter :: "Env \<Rightarrow> World" where
  "firstChapter env = snd (handleUserSend env ''a pirate adventure'' (mounted env))"

definition whileWriting :: "Env \<Rightarrow> World" where
  "whileWriting env = snd (handleUserSend_start env ''a pirate adventure'' (mounted env))"

definition whilePainting :: "Env \<Rightarrow> World" where
  "whilePainting env = snd (handleUserSend_start env ''a ship at sunset'' (firstChapter env))"

text \<open>A first chapter, a new story, and the first chapter of that story.\<close>

definition secondStory :: "Env \<Rightarrow> World" where
  "secondStory env =
     snd (handleUserSend env ''a ghost story''
            (snd (handleNewStory env (firstChapter env))))"

text \<open>A new story started while the first chapter is awaited; the chapter then arrives.\<close>

definition resetWhileWriting :: "Env \<Rightarrow> World" where
  "resetWhileWriting env =
     snd (handleUserSend_resume env (AwaitFirstChapter 0)
            (snd (handleNewStory env (whileWriting env))))"

section \<open>How the steps run\<close>

lemmas eff_defs = seq_def bnd_def try_catch_def ret_def throw_def modify_def
  setAppState_def setLastChapterText_def setMessages_def

lemma addMessage_run:
  "addMessage env sndr ty cont w =
     (Inr (),
      w\<lparr>randomCalls := Suc (randomCalls w),
        dateNowCalls := Suc (dateNowCalls w),
        messages := messages w @
          [\<lparr>id_msg = substr 2 9 (random36 env (randomCalls w)), sender = sndr, type_msg = ty,
            content = cont, timestamp = dateNow env (dateNowCalls w)\<rparr>]\<rparr>)"
  by (simp add: addMessage_def generateId_def Math_random_toString36_def Date_now_def
      bnd_def ret_def modify_def)

lemma startStorySession_run:
  "startStorySession w =
     (let chat = \<lparr>handle = chatsCreated w,
                  config = \<lparr>model = ''gemini-2.5-flash'', systemInstruction = SYSTEM_INSTRUCTION,
                            temperature = 8 / 10\<rparr>\<rparr>
      in (Inr chat, w\<lparr>chatsCreated := Suc (chatsCreated w), chatSession := Some chat\<rparr>))"
  by (simp add: startStorySession_def ai_chats_create_def eff_defs Let_def)

lemma sendMessageToWriter_run:
  "sendMessageToWriter env message w =
     (case chatSession w of
        None \<Rightarrow> (Inl (Error ''Chat session not initialized.''), w)
      | Some chat \<Rightarrow>
          (case sendMessage_settles env (length (writerCalls w)) of
             Inl e \<Rightarrow>
               (Inl e, w\<lparr>writerCalls := writerCalls w @ [(chat, message)],
                         console := console w @ [(''Error sending message to writer:'', e)]\<rparr>)
           | Inr response \<Rightarrow>
               (Inr (or_else (text_resp response) writerFallback),
                w\<lparr>writerCalls := writerCalls w @ [(chat, message)]\<rparr>)))"
  by (simp add: sendMessageToWriter_def chat_sendMessage_def console_error_def
      writerFallback_def eff_defs split: option.splits sum.splits)

lemma generateIllustration_run:
  "generateIllustration env userDescription storyContext w =
     (let w' = w\<lparr>imageCalls := imageCalls w @
                  [(''gemini-2.5-flash-image'', illustrationPrompt userDescription storyContext)]\<rparr>
      in case generateContent_settles env (length (imageCalls w)) of
           Inl e \<Rightarrow> (Inl e, w'\<lparr>console := console w @ [(''Error generating illustration:'', e)]\<rparr>)
         | Inr response \<Rightarrow>
             (case firstInlineData (partsOf response) of
                Some url \<Rightarrow> (Inr url, w')
              | None \<Rightarrow>
                  (Inl (Error ''No image generated.''),
                   w'\<lparr>console := console w @
                        [(''Error generating illustration:'', Error ''No image generated.'')]\<rparr>)))"
  by (simp add: generateIllustration_def ai_models_generateContent_def console_error_def
      eff_defs Let_def split: option.splits sum.splits)

text \<open>
  Whether a client call succeeds depends on the world only through \<^verbatim>\<open>chatSession\<close> and the
  number of earlier calls of its kind. The steps of \<^verbatim>\<open>handleUserSend\<close> that come before a
  call change neither, so the theorems below say "the call succeeds" of the world in which
  the submission starts.
\<close>

lemma sendMessageToWriter_outcome:
  assumes "chatSession w' = chatSession w"
    and "length (writerCalls w') = length (writerCalls w)"
  shows "fst (sendMessageToWriter env message' w') = fst (sendMessageToWriter env message w)"
  using assms by (simp add: sendMessageToWriter_run split: option.splits sum.splits)

lemma generateIllustration_outcome:
  assumes "length (imageCalls w') = length (imageCalls w)"
  shows "fst (generateIllustration env d c w') = fst (generateIllustration env d c w)"
  using assms by (simp add: generateIllustration_run Let_def split: option.splits sum.splits)

lemma mounted_run:
  "mounted env =
     (initialWorld env)
       \<lparr>chatsCreated := 1,
        chatSession := Some
          \<lparr>handle = 0,
           config = \<lparr>model = ''gemini-2.5-flash'', systemInstruction = SYSTEM_INSTRUCTION,
                     temperature = 8 / 10\<rparr>\<rparr>\<rparr>"
  by (simp add: mounted_def startStorySession_run Let_def initialWorld_def)

lemma firstChapter_run:
  assumes "sendMessage_settles env 0 = Inr chapterOne"
  shows "appState (firstChapter env) = WaitingForArt"
    and "lastChapterText (firstChapter env) = ''**Chapter One** The tide was turning.''"
    and "chatSession (firstChapter env) = chatSession (mounted env)"
    and "length (writerCalls (firstChapter env)) = 1"
    and "imageCalls (firstChapter env) = []"
    and "randomCalls (firstChapter env) = 2"
    and "map id_msg (messages (firstChapter env)) =
           [''init'', substr 2 9 (random36 env 0), substr 2 9 (random36 env (Suc 0))]"
    and "chatsCreated (firstChapter env) = 1"
  using assms
  by (simp_all add: firstChapter_def handleUserSend_def eff_defs addMessage_run
      sendMessageToWriter_run mounted_run initialWorld_def INITIAL_MESSAGE_def
      chapterOne_def or_else_def)

text \<open>
  A property kept by every step of a handler is kept by the handler, along each of its
  paths.
\<close>

lemma preserves_ret: "preserves P (ret x)"
  by (simp add: preserves_def ret_def)

lemma preserves_throw: "preserves P (throw e)"
  by (simp add: preserves_def throw_def)

lemma preserves_bnd:
  assumes "preserves P m" and "\<And>a. preserves P (f a)"
  shows "preserves P (bnd m f)"
  unfolding preserves_def bnd_def
proof (intro allI impI)
  fix w assume "P w"
  with assms(1) have "P (snd (m w))" by (simp add: preserves_def)
  with assms(2) show "P (snd (case m w of (Inl e, w') \<Rightarrow> (Inl e, w') | (Inr a, w') \<Rightarrow> f a w'))"
    by (cases "m w") (auto simp: preserves_def split: sum.splits)
qed

lemma preserves_seq:
  assumes "preserves P m" and "preserves P n"
  shows "preserves P (seq m n)"
  unfolding seq_def using assms by (intro preserves_bnd)

lemma preserves_try_catch:
  assumes "preserves P m" and "\<And>e. preserves P (h e)"
  shows "preserves P (try_catch m h)"
  unfolding preserves_def try_catch_def
proof (intro allI impI)
  fix w assume "P w"
  with assms(1) have "P (snd (m w))" by (simp add: preserves_def)
  with assms(2) show "P (snd (case m w of (Inl e, w') \<Rightarrow> h e w' | (Inr a, w') \<Rightarrow> (Inr a, w')))"
    by (cases "m w") (auto simp: preserves_def split: sum.splits)
qed

lemmas preserves_steps =
  preserves_ret preserves_throw preserves_bnd preserves_seq preserves_try_catch

text \<open>No path of \<^verbatim>\<open>handleUserSend\<close> throws: each awaited call stands inside a \<^verbatim>\<open>try\<close> block.\<close>

lemma handleUserSend_completes: "fst (handleUserSend env text w) = Inr ()"
  by (auto simp: handleUserSend_def eff_defs addMessage_run sendMessageToWriter_run
      generateIllustration_run Let_def split: option.splits sum.splits)

text \<open>Each client function is its call followed by what it does once the call has settled.\<close>

lemma sendMessageToWriter_by_await:
  "sendMessageToWriter env message =
     bnd (sendMessageToWriter_call message) (sendMessageToWriter_settled env)"
  by (rule ext)
    (simp add: sendMessageToWriter_def sendMessageToWriter_call_def
      sendMessageToWriter_settled_def chat_sendMessage_def eff_defs
      split: option.splits sum.splits)

lemma generateIllustration_by_await:
  "generateIllustration env userDescription storyContext =
     bnd (generateIllustration_call userDescription storyContext)
       (generateIllustration_settled env)"
  by (rule ext)
    (simp add: generateIllustration_def generateIllustration_call_def
      generateIllustration_settled_def ai_models_generateContent_def eff_defs
      split: option.splits sum.splits)

lemmas await_defs = handleUserSend_start_def resumeAtOnce_def sendMessageToWriter_call_def
  sendMessageToWriter_settled_def generateIllustration_call_def
  generateIllustration_settled_def console_error_def writerFallback_def

text \<open>
  A handler whose calls settle before anything else happens is \<^verbatim>\<open>handleUserSend\<close> run to
  its end: after at most two calls nothing is left waiting.
\<close>

lemma handleUserSend_by_awaits:
  "resumeAtOnce env (resumeAtOnce env (handleUserSend_start env text)) w =
     (Inr [], snd (handleUserSend env text w))"
  by (auto simp: handleUserSend_def await_defs eff_defs addMessage_run
      sendMessageToWriter_run generateIllustration_run Let_def
      split: option.splits sum.splits)

lemma handleUserSend_start_waits_once:
  "length (suspended (fst (handleUserSend_start env text w))) \<le> 1"
  by (auto simp: suspended_def await_defs eff_defs addMessage_run
      split: option.splits sum.splits)

lemma handleUserSend_resume_waits_once:
  "length (suspended (fst (handleUserSend_resume env p w))) \<le> 1"
  by (cases p)
    (auto simp: suspended_def await_defs eff_defs addMessage_run
      split: option.splits sum.splits)

lemma resumeAtOnce_waits_once:
  "length (suspended (fst (resumeAtOnce env m w))) \<le> 1"
proof (cases "m w")
  case (Pair r w')
  then show ?thesis
    using handleUserSend_resume_waits_once [of env _ w']
    by (cases r) (auto simp: resumeAtOnce_def bnd_def ret_def suspended_def split: list.splits)
qed

lemma running_resumeAtOnce:
  assumes "running env (snd (m w)) (ps @ suspended (fst (m w)))"
    and "length (suspended (fst (m w))) \<le> 1"
  shows "running env (snd (resumeAtOnce env m w))
           (ps @ suspended (fst (resumeAtOnce env m w)))"
proof (cases "m w")
  case (Pair r w')
  show ?thesis
  proof (cases "suspended r")
    case Nil
    with Pair assms(1) show ?thesis
      by (cases r) (auto simp: resumeAtOnce_def bnd_def ret_def suspended_def)
  next
    case (Cons p rest)
    with Pair assms(2) have rest: "rest = []" by simp
    from Cons rest have r: "r = Inr [p]"
      by (cases r) (auto simp: suspended_def)
    from Pair assms(1) Cons rest have "running env w' (ps @ p # [])" by simp
    from running.settle [OF this] Pair r show ?thesis
      by (simp add: resumeAtOnce_def bnd_def)
  qed
qed

lemma running_handleUserSend:
  assumes "running env w ps"
  shows "running env (snd (handleUserSend env text w)) ps"
proof -
  let ?start = "handleUserSend_start env text"
  have "running env (snd (?start w)) (ps @ suspended (fst (?start w)))"
    using assms by (rule running.submit)
  then have "running env (snd (resumeAtOnce env ?start w))
      (ps @ suspended (fst (resumeAtOnce env ?start w)))"
    using handleUserSend_start_waits_once by (rule running_resumeAtOnce)
  then have "running env (snd (resumeAtOnce env (resumeAtOnce env ?start) w))
      (ps @ suspended (fst (resumeAtOnce env (resumeAtOnce env ?start) w)))"
    using resumeAtOnce_waits_once by (rule running_resumeAtOnce)
  then show ?thesis
    by (simp add: handleUserSend_by_awaits suspended_def)
qed

lemma reachable_mounted: "reachable env (mounted env)"
  unfolding reachable_def by (rule exI [of _ "[]"]) (rule running.mount)

lemma reachable_handleNewStory:
  assumes "reachable env w"
  shows "reachable env (snd (handleNewStory env w))"
  using assms unfolding reachable_def by (auto intro: running.newStory)

lemma reachable_handleUserSend:
  assumes "reachable env w"
  shows "reachable env (snd (handleUserSend env text w))"
  using assms unfolding reachable_def by (auto intro: running_handleUserSend)

lemma reachable_handleUserSend_start:
  assumes "reachable env w"
  shows "reachable env (snd (handleUserSend_start env text w))"
  using assms unfolding reachable_def by (auto intro: running.submit)

text \<open>
  A property that holds when the application is mounted, and that \<^verbatim>\<open>handleNewStory\<close> and
  every step of \<^verbatim>\<open>handleUserSend\<close> keep, holds in every reachable world.
\<close>

lemma handleUserSend_start_preserves:
  assumes "\<And>sndr ty cont. preserves P (addMessage env sndr ty cont)"
    and "\<And>st. preserves P (setAppState st)"
    and "\<And>message. preserves P (sendMessageToWriter_call message)"
    and "\<And>d c. preserves P (generateIllustration_call d c)"
  shows "preserves P (handleUserSend_start env text)"
proof -
  have setup_branch: "preserves P
    (seq (addMessage env User Text text)
    (seq (setAppState Writing)
    (try_catch
       (bnd (sendMessageToWriter_call
               (''The story is about: '' @ text @ ''. Let's begin!'')) (\<lambda>n.
        ret [AwaitFirstChapter n]))
       (\<lambda>error.
        seq (addMessage env Assistant Text
               ''I encountered an issue starting the story. Please try again.'')
       (seq (setAppState Setup)
            (ret []))))))"
    by (intro preserves_steps assms)
  have art_branch: "preserves P
    (seq (addMessage env User Text text)
    (seq (setAppState Painting)
    (try_catch
       (bnd (generateIllustration_call text ctx) (\<lambda>n.
        ret [AwaitIllustration n text]))
       (\<lambda>error.
        seq (addMessage env Assistant Text
               (''I was unable to generate that illustration. '' @
                ''Could you provide a different description?''))
       (seq (setAppState WaitingForArt)
            (ret []))))))" for ctx
    by (intro preserves_steps assms)
  show ?thesis
    unfolding preserves_def
  proof (intro allI impI)
    fix w assume "P w"
    with setup_branch art_branch [of "lastChapterText w"]
    show "P (snd (handleUserSend_start env text w))"
      by (simp add: handleUserSend_start_def preserves_def ret_def)
  qed
qed

lemma handleUserSend_resume_preserves:
  assumes "\<And>sndr ty cont. preserves P (addMessage env sndr ty cont)"
    and "\<And>st. preserves P (setAppState st)"
    and "\<And>t. preserves P (setLastChapterText t)"
    and "\<And>message. preserves P (sendMessageToWriter_call message)"
    and "\<And>n. preserves P (sendMessageToWriter_settled env n)"
    and "\<And>n. preserves P (generateIllustration_settled env n)"
  shows "preserves P (handleUserSend_resume env p)"
  by (cases p) (simp_all, (intro preserves_steps assms)+)

lemma running_invariant:
  assumes "running env w ps"
    and "P (mounted env)"
    and "\<And>w. P w \<Longrightarrow> P (snd (handleNewStory env w))"
    and "\<And>text. preserves P (handleUserSend_start env text)"
    and "\<And>p. preserves P (handleUserSend_resume env p)"
  shows "P w"
  using assms(1)
proof (induction rule: running.induct)
  case mount
  show ?case by (rule assms(2))
next
  case (newStory w ps)
  then show ?case by (intro assms(3))
next
  case (submit w ps t)
  with assms(4) [of t] show ?case by (simp add: preserves_def)
next
  case (settle w ps1 p ps2)
  with assms(5) [of p] show ?case by (simp add: preserves_def)
qed

text \<open>The sample worlds with a call pending.\<close>

lemma whileWriting_run:
  shows "appState (whileWriting env) = Writing"
    and "length (messages (whileWriting env)) = 2"
    and "length (writerCalls (whileWriting env)) = 1"
    and "chatSession (whileWriting env) = chatSession (mounted env)"
  by (simp_all add: whileWriting_def await_defs eff_defs addMessage_run mounted_run
      initialWorld_def)

lemma whilePainting_run:
  assumes "appState (firstChapter env) = WaitingForArt"
  shows "appState (whilePainting env) = Painting"
    and "chatSession (whilePainting env) = chatSession (firstChapter env)"
    and "chatsCreated (whilePainting env) = chatsCreated (firstChapter env)"
    and "lastChapterText (whilePainting env) = lastChapterText (firstChapter env)"
    and "length (messages (whilePainting env)) = Suc (length (messages (firstChapter env)))"
    and "length (imageCalls (whilePainting env)) = Suc (length (imageCalls (firstChapter env)))"
  using assms
  by (simp_all add: whilePainting_def await_defs eff_defs addMessage_run)

section \<open>Submissions\<close>

text \<open>
  C2. A submission made while the phase is \<^verbatim>\<open>Writing\<close> or \<^verbatim>\<open>Painting\<close> changes nothing:
  neither the log nor the phase, nor any other part of the world.
\<close>

theorem handleUserSend_busy_noop:
  assumes "appState w = Writing \<or> appState w = Painting"
  shows "handleUserSend env text w = (Inr (), w)"
  using assms by (auto simp: handleUserSend_def ret_def)

theorem handleUserSend_busy_noop_witness:
  "appState (whileWriting allGood) = Writing \<and>
   handleUserSend allGood ''ignored'' (whileWriting allGood) = (Inr (), whileWriting allGood) \<and>
   appState (whilePainting allGood) = Painting \<and>
   handleUserSend allGood ''ignored'' (whilePainting allGood) = (Inr (), whilePainting allGood)"
proof -
  have writing: "appState (whileWriting allGood) = Writing"
    by (rule whileWriting_run)
  have first: "sendMessage_settles allGood 0 = Inr chapterOne"
    by (simp add: allGood_def demoEnv_def)
  have painting: "appState (whilePainting allGood) = Painting"
    by (rule whilePainting_run) (rule firstChapter_run [OF first])
  show ?thesis
    using writing painting
      handleUserSend_busy_noop [of "whileWriting allGood" allGood "''ignored''"]
      handleUserSend_busy_noop [of "whilePainting allGood" allGood "''ignored''"]
    by simp
qed

text \<open>
  C4. A submission in phase \<^verbatim>\<open>Setup\<close> whose writer call succeeds appends exactly two turn
  records, User/Text with the user's text and then Assistant/Text with the writer's
  result; \<^verbatim>\<open>lastChapterText\<close> is that result, the phase ends as \<^verbatim>\<open>WaitingForArt\<close>, and the
  one message sent to the writer is \<^verbatim>\<open>The story is about: {text}. Let's begin!\<close>.
\<close>

theorem handleUserSend_setup_success:
  assumes "appState w = Setup"
    and "fst (sendMessageToWriter env (''The story is about: '' @ text @ ''. Let's begin!'') w)
           = Inr response"
  shows "\<exists>m1 m2 chat.
           messages (snd (handleUserSend env text w)) = messages w @ [m1, m2] \<and>
           turn m1 User Text text \<and>
           turn m2 Assistant Text response \<and>
           lastChapterText (snd (handleUserSend env text w)) = response \<and>
           appState (snd (handleUserSend env text w)) = WaitingForArt \<and>
           chatSession w = Some chat \<and>
           writerCalls (snd (handleUserSend env text w)) =
             writerCalls w @ [(chat, ''The story is about: '' @ text @ ''. Let's begin!'')]"
  using assms
  by (auto simp: handleUserSend_def eff_defs addMessage_run sendMessageToWriter_run turn_def
      split: option.splits sum.splits)

theorem handleUserSend_setup_success_witness:
  "appState (mounted allGood) = Setup \<and>
   fst (sendMessageToWriter allGood
          (''The story is about: '' @ ''a pirate adventure'' @ ''. Let's begin!'')
          (mounted allGood)) = Inr ''**Chapter One** The tide was turning.'' \<and>
   length (messages (mounted allGood)) = 1 \<and>
   length (messages (snd (handleUserSend allGood ''a pirate adventure'' (mounted allGood)))) = 3 \<and>
   lastChapterText (snd (handleUserSend allGood ''a pirate adventure'' (mounted allGood))) =
     ''**Chapter One** The tide was turning.'' \<and>
   appState (snd (handleUserSend allGood ''a pirate adventure'' (mounted allGood))) =
     WaitingForArt"
proof -
  have in_setup: "appState (mounted allGood) = Setup"
    by (simp add: mounted_run initialWorld_def)
  have writer: "fst (sendMessageToWriter allGood
      (''The story is about: '' @ ''a pirate adventure'' @ ''. Let's begin!'') (mounted allGood))
      = Inr ''**Chapter One** The tide was turning.''"
    by (simp add: sendMessageToWriter_run mounted_run initialWorld_def allGood_def demoEnv_def
        chapterOne_def or_else_def)
  have greeting: "length (messages (mounted allGood)) = 1"
    by (simp add: mounted_run initialWorld_def)
  from handleUserSend_setup_success [OF in_setup writer] greeting
  have "length (messages (snd (handleUserSend allGood ''a pirate adventure''
            (mounted allGood)))) = 3 \<and>
        lastChapterText (snd (handleUserSend allGood ''a pirate adventure'' (mounted allGood))) =
          ''**Chapter One** The tide was turning.'' \<and>
        appState (snd (handleUserSend allGood ''a pirate adventure'' (mounted allGood))) =
          WaitingForArt"
    by auto
  with in_setup writer greeting show ?thesis by blast
qed

text \<open>
  C6. A submission in phase \<^verbatim>\<open>Setup\<close> whose writer call fails does not throw: the handler
  completes, having appended the User/Text record and then an Assistant/Text record with
  the retry message, and the phase ends as \<^verbatim>\<open>Setup\<close>.
\<close>

theorem handleUserSend_setup_failure:
  assumes "appState w = Setup"
    and "fst (sendMessageToWriter env (''The story is about: '' @ text @ ''. Let's begin!'') w)
           = Inl err"
  shows "\<exists>m1 m2.
           fst (handleUserSend env text w) = Inr () \<and>
           messages (snd (handleUserSend env text w)) = messages w @ [m1, m2] \<and>
           turn m1 User Text text \<and>
           turn m2 Assistant Text setupRetryNotice \<and>
           appState (snd (handleUserSend env text w)) = Setup"
  using assms
  by (auto simp: handleUserSend_def eff_defs addMessage_run sendMessageToWriter_run turn_def
      setupRetryNotice_def split: option.splits sum.splits)

theorem handleUserSend_setup_failure_witness:
  "appState (mounted writerDown) = Setup \<and>
   fst (sendMessageToWriter writerDown
          (''The story is about: '' @ ''a pirate adventure'' @ ''. Let's begin!'')
          (mounted writerDown)) = Inl unavailable \<and>
   fst (handleUserSend writerDown ''a pirate adventure'' (mounted writerDown)) = Inr () \<and>
   length (messages (snd (handleUserSend writerDown ''a pirate adventure''
     (mounted writerDown)))) = 3 \<and>
   content (last (messages (snd (handleUserSend writerDown ''a pirate adventure''
     (mounted writerDown))))) = setupRetryNotice \<and>
   appState (snd (handleUserSend writerDown ''a pirate adventure'' (mounted writerDown))) = Setup"
proof -
  have in_setup: "appState (mounted writerDown) = Setup"
    by (simp add: mounted_run initialWorld_def)
  have writer: "fst (sendMessageToWriter writerDown
      (''The story is about: '' @ ''a pirate adventure'' @ ''. Let's begin!'')
      (mounted writerDown)) = Inl unavailable"
    by (simp add: sendMessageToWriter_run mounted_run initialWorld_def writerDown_def
        demoEnv_def)
  have greeting: "length (messages (mounted writerDown)) = 1"
    by (simp add: mounted_run initialWorld_def)
  from handleUserSend_setup_failure [OF in_setup writer] greeting
  have "fst (handleUserSend writerDown ''a pirate adventure'' (mounted writerDown)) = Inr () \<and>
        length (messages (snd (handleUserSend writerDown ''a pirate adventure''
          (mounted writerDown)))) = 3 \<and>
        content (last (messages (snd (handleUserSend writerDown ''a pirate adventure''
          (mounted writerDown))))) = setupRetryNotice \<and>
        appState (snd (handleUserSend writerDown ''a pirate adventure'' (mounted writerDown))) =
          Setup"
    by (auto simp: turn_def)
  with in_setup writer show ?thesis by blast
qed

text \<open>
  C3. A submission in phase \<^verbatim>\<open>WaitingForArt\<close> whose illustrator call and chained writer call
  both succeed appends exactly three turn records: User/Text with the user's text,
  Assistant/Image with the image, Assistant/Text with the next chapter. The phase ends as
  \<^verbatim>\<open>WaitingForArt\<close> and \<^verbatim>\<open>lastChapterText\<close> is the payload of the last record.
\<close>

theorem handleUserSend_art_success:
  assumes "appState w = WaitingForArt"
    and "fst (generateIllustration env text (lastChapterText w) w) = Inr imageUrl"
    and "fst (sendMessageToWriter env (nextChapterPrompt text) w) = Inr nextChapterResponse"
  shows "\<exists>m1 m2 m3.
           messages (snd (handleUserSend env text w)) = messages w @ [m1, m2, m3] \<and>
           turn m1 User Text text \<and>
           turn m2 Assistant Image imageUrl \<and>
           turn m3 Assistant Text nextChapterResponse \<and>
           appState (snd (handleUserSend env text w)) = WaitingForArt \<and>
           lastChapterText (snd (handleUserSend env text w)) = content m3"
  using assms
  by (auto simp: handleUserSend_def eff_defs addMessage_run sendMessageToWriter_run
      generateIllustration_run turn_def Let_def split: option.splits sum.splits)

theorem handleUserSend_art_success_witness:
  "appState (firstChapter allGood) = WaitingForArt \<and>
   fst (generateIllustration allGood ''a ship at sunset''
          (lastChapterText (firstChapter allGood)) (firstChapter allGood)) =
     Inr ''data:image/png;base64,iVBORw0KGgo='' \<and>
   fst (sendMessageToWriter allGood (nextChapterPrompt ''a ship at sunset'')
          (firstChapter allGood)) = Inr ''**Chapter Two** The harbour fell silent.'' \<and>
   length (messages (firstChapter allGood)) = 3 \<and>
   length (messages (snd (handleUserSend allGood ''a ship at sunset''
     (firstChapter allGood)))) = 6 \<and>
   appState (snd (handleUserSend allGood ''a ship at sunset'' (firstChapter allGood))) =
     WaitingForArt \<and>
   lastChapterText (snd (handleUserSend allGood ''a ship at sunset'' (firstChapter allGood))) =
     ''**Chapter Two** The harbour fell silent.''"
proof -
  have first: "sendMessage_settles allGood 0 = Inr chapterOne"
    by (simp add: allGood_def demoEnv_def)
  note fc = firstChapter_run [OF first]
  have art: "appState (firstChapter allGood) = WaitingForArt"
    by (rule fc)
  have image: "fst (generateIllustration allGood ''a ship at sunset''
      (lastChapterText (firstChapter allGood)) (firstChapter allGood)) =
      Inr ''data:image/png;base64,iVBORw0KGgo=''"
    using fc by (simp add: generateIllustration_run, simp add: allGood_def demoEnv_def
        painting_def partsOf_def)
  have writer: "fst (sendMessageToWriter allGood (nextChapterPrompt ''a ship at sunset'')
      (firstChapter allGood)) = Inr ''**Chapter Two** The harbour fell silent.''"
    using fc by (simp add: sendMessageToWriter_run mounted_run, simp add: allGood_def
        demoEnv_def chapterTwo_def or_else_def)
  have log: "length (messages (firstChapter allGood)) = 3"
    using arg_cong [OF fc(7), of length] by simp
  from handleUserSend_art_success [OF art image writer] log
  have "length (messages (snd (handleUserSend allGood ''a ship at sunset''
          (firstChapter allGood)))) = 6 \<and>
        appState (snd (handleUserSend allGood ''a ship at sunset'' (firstChapter allGood))) =
          WaitingForArt \<and>
        lastChapterText (snd (handleUserSend allGood ''a ship at sunset''
          (firstChapter allGood))) = ''**Chapter Two** The harbour fell silent.''"
    by (auto simp: turn_def)
  with art image writer log show ?thesis by blast
qed

text \<open>
  C1. A submission in phase \<^verbatim>\<open>WaitingForArt\<close> whose illustrator call succeeds and whose
  chained writer call fails appends three turn records: User/Text with the user's text,
  Assistant/Image with the image, and an Assistant/Text failure notice. The phase ends as
  \<^verbatim>\<open>WaitingForArt\<close>.
\<close>

theorem handleUserSend_art_partial_failure:
  assumes "appState w = WaitingForArt"
    and "fst (generateIllustration env text (lastChapterText w) w) = Inr imageUrl"
    and "fst (sendMessageToWriter env (nextChapterPrompt text) w) = Inl err"
  shows "\<exists>m1 m2 m3.
           messages (snd (handleUserSend env text w)) = messages w @ [m1, m2, m3] \<and>
           turn m1 User Text text \<and>
           turn m2 Assistant Image imageUrl \<and>
           turn m3 Assistant Text artRetryNotice \<and>
           appState (snd (handleUserSend env text w)) = WaitingForArt"
  using assms
  by (auto simp: handleUserSend_def eff_defs addMessage_run sendMessageToWriter_run
      generateIllustration_run turn_def artRetryNotice_def Let_def
      split: option.splits sum.splits)

theorem handleUserSend_art_partial_failure_witness:
  "appState (firstChapter writerDownLater) = WaitingForArt \<and>
   fst (generateIllustration writerDownLater ''a ship at sunset''
          (lastChapterText (firstChapter writerDownLater)) (firstChapter writerDownLater)) =
     Inr ''data:image/png;base64,iVBORw0KGgo='' \<and>
   fst (sendMessageToWriter writerDownLater (nextChapterPrompt ''a ship at sunset'')
          (firstChapter writerDownLater)) = Inl unavailable \<and>
   length (messages (firstChapter writerDownLater)) = 3 \<and>
   length (messages (snd (handleUserSend writerDownLater ''a ship at sunset''
     (firstChapter writerDownLater)))) = 6 \<and>
   turn (messages (snd (handleUserSend writerDownLater ''a ship at sunset''
     (firstChapter writerDownLater))) ! 4) Assistant Image ''data:image/png;base64,iVBORw0KGgo='' \<and>
   appState (snd (handleUserSend writerDownLater ''a ship at sunset''
     (firstChapter writerDownLater))) = WaitingForArt"
proof -
  have first: "sendMessage_settles writerDownLater 0 = Inr chapterOne"
    by (simp add: writerDownLater_def demoEnv_def)
  note fc = firstChapter_run [OF first]
  have art: "appState (firstChapter writerDownLater) = WaitingForArt"
    by (rule fc)
  have image: "fst (generateIllustration writerDownLater ''a ship at sunset''
      (lastChapterText (firstChapter writerDownLater)) (firstChapter writerDownLater)) =
      Inr ''data:image/png;base64,iVBORw0KGgo=''"
    using fc by (simp add: generateIllustration_run, simp add: writerDownLater_def
        demoEnv_def painting_def partsOf_def)
  have writer: "fst (sendMessageToWriter writerDownLater (nextChapterPrompt ''a ship at sunset'')
      (firstChapter writerDownLater)) = Inl unavailable"
    using fc by (simp add: sendMessageToWriter_run mounted_run, simp add: writerDownLater_def
        demoEnv_def)
  have log: "length (messages (firstChapter writerDownLater)) = 3"
    using arg_cong [OF fc(7), of length] by simp
  from handleUserSend_art_partial_failure [OF art image writer] log
  have "length (messages (snd (handleUserSend writerDownLater ''a ship at sunset''
          (firstChapter writerDownLater)))) = 6 \<and>
        turn (messages (snd (handleUserSend writerDownLater ''a ship at sunset''
          (firstChapter writerDownLater))) ! 4) Assistant Image
          ''data:image/png;base64,iVBORw0KGgo='' \<and>
        appState (snd (handleUserSend writerDownLater ''a ship at sunset''
          (firstChapter writerDownLater))) = WaitingForArt"
    by (auto simp: nth_append)
  with art image writer log show ?thesis by blast
qed

text \<open>
  C5. A submission in phase \<^verbatim>\<open>WaitingForArt\<close> whose illustrator call fails makes no call to
  the writer, appends exactly two turn records, User/Text with the user's text and then
  an Assistant/Text apology, and ends in phase \<^verbatim>\<open>WaitingForArt\<close>.
\<close>

theorem handleUserSend_art_failure:
  assumes "appState w = WaitingForArt"
    and "fst (generateIllustration env text (lastChapterText w) w) = Inl err"
  shows "\<exists>m1 m2.
           writerCalls (snd (handleUserSend env text w)) = writerCalls w \<and>
           messages (snd (handleUserSend env text w)) = messages w @ [m1, m2] \<and>
           turn m1 User Text text \<and>
           turn m2 Assistant Text artRetryNotice \<and>
           appState (snd (handleUserSend env text w)) = WaitingForArt"
  using assms
  by (auto simp: handleUserSend_def eff_defs addMessage_run generateIllustration_run turn_def
      artRetryNotice_def Let_def split: option.splits sum.splits)

theorem handleUserSend_art_failure_witness:
  "appState (firstChapter noImage) = WaitingForArt \<and>
   fst (generateIllustration noImage ''a ship at sunset''
          (lastChapterText (firstChapter noImage)) (firstChapter noImage)) =
     Inl (Error ''No image generated.'') \<and>
   length (messages (firstChapter noImage)) = 3 \<and>
   length (writerCalls (firstChapter noImage)) = 1 \<and>
   length (messages (snd (handleUserSend noImage ''a ship at sunset''
     (firstChapter noImage)))) = 5 \<and>
   length (writerCalls (snd (handleUserSend noImage ''a ship at sunset''
     (firstChapter noImage)))) = 1 \<and>
   appState (snd (handleUserSend noImage ''a ship at sunset'' (firstChapter noImage))) =
     WaitingForArt"
proof -
  have first: "sendMessage_settles noImage 0 = Inr chapterOne"
    by (simp add: noImage_def demoEnv_def)
  note fc = firstChapter_run [OF first]
  have art: "appState (firstChapter noImage) = WaitingForArt"
    by (rule fc)
  have image: "fst (generateIllustration noImage ''a ship at sunset''
      (lastChapterText (firstChapter noImage)) (firstChapter noImage)) =
      Inl (Error ''No image generated.'')"
    using fc by (simp add: generateIllustration_run, simp add: noImage_def demoEnv_def
        chapterTwo_def partsOf_def)
  have log: "length (messages (firstChapter noImage)) = 3"
    using arg_cong [OF fc(7), of length] by simp
  have calls: "length (writerCalls (firstChapter noImage)) = 1"
    by (rule fc)
  from handleUserSend_art_failure [OF art image] log calls
  have "length (messages (snd (handleUserSend noImage ''a ship at sunset''
          (firstChapter noImage)))) = 5 \<and>
        length (writerCalls (snd (handleUserSend noImage ''a ship at sunset''
          (firstChapter noImage)))) = 1 \<and>
        appState (snd (handleUserSend noImage ''a ship at sunset'' (firstChapter noImage))) =
          WaitingForArt"
    by auto
  with art image log calls show ?thesis by blast
qed

text \<open>
  C10. On each failure path of a submission (the writer fails in phase \<^verbatim>\<open>Setup\<close>; the
  illustrator fails in phase \<^verbatim>\<open>WaitingForArt\<close>; the illustrator succeeds and the chained
  writer call fails) \<^verbatim>\<open>lastChapterText\<close> is left as it was.
\<close>

theorem handleUserSend_failure_keeps_lastChapterText:
  assumes "(appState w = Setup \<and>
            fst (sendMessageToWriter env
                   (''The story is about: '' @ text @ ''. Let's begin!'') w) = Inl err) \<or>
           (appState w = WaitingForArt \<and>
            fst (generateIllustration env text (lastChapterText w) w) = Inl err) \<or>
           (appState w = WaitingForArt \<and>
            fst (generateIllustration env text (lastChapterText w) w) = Inr imageUrl \<and>
            fst (sendMessageToWriter env (nextChapterPrompt text) w) = Inl err)"
  shows "lastChapterText (snd (handleUserSend env text w)) = lastChapterText w"
  using assms
  by (auto simp: handleUserSend_def eff_defs addMessage_run sendMessageToWriter_run
      generateIllustration_run Let_def split: option.splits sum.splits)

theorem handleUserSend_failure_keeps_lastChapterText_witness:
  "appState (mounted writerDown) = Setup \<and>
   fst (sendMessageToWriter writerDown
          (''The story is about: '' @ ''a pirate adventure'' @ ''. Let's begin!'')
          (mounted writerDown)) = Inl unavailable \<and>
   lastChapterText (snd (handleUserSend writerDown ''a pirate adventure''
     (mounted writerDown))) = lastChapterText (mounted writerDown) \<and>
   appState (firstChapter noImage) = WaitingForArt \<and>
   fst (generateIllustration noImage ''a ship at sunset''
          (lastChapterText (firstChapter noImage)) (firstChapter noImage)) =
     Inl (Error ''No image generated.'') \<and>
   lastChapterText (snd (handleUserSend noImage ''a ship at sunset''
     (firstChapter noImage))) = ''**Chapter One** The tide was turning.'' \<and>
   appState (firstChapter writerDownLater) = WaitingForArt \<and>
   fst (generateIllustration writerDownLater ''a ship at sunset''
          (lastChapterText (firstChapter writerDownLater)) (firstChapter writerDownLater)) =
     Inr ''data:image/png;base64,iVBORw0KGgo='' \<and>
   fst (sendMessageToWriter writerDownLater (nextChapterPrompt ''a ship at sunset'')
          (firstChapter writerDownLater)) = Inl unavailable \<and>
   lastChapterText (snd (handleUserSend writerDownLater ''a ship at sunset''
     (firstChapter writerDownLater))) = ''**Chapter One** The tide was turning.''"
proof -
  have in_setup: "appState (mounted writerDown) = Setup"
    by (simp add: mounted_run initialWorld_def)
  have writer0: "fst (sendMessageToWriter writerDown
      (''The story is about: '' @ ''a pirate adventure'' @ ''. Let's begin!'')
      (mounted writerDown)) = Inl unavailable"
    by (simp add: sendMessageToWriter_run mounted_run initialWorld_def writerDown_def
        demoEnv_def)
  have kept0: "lastChapterText (snd (handleUserSend writerDown ''a pirate adventure''
      (mounted writerDown))) = lastChapterText (mounted writerDown)"
    using handleUserSend_failure_keeps_lastChapterText
      [of "mounted writerDown" writerDown "''a pirate adventure''" unavailable]
      in_setup writer0
    by blast
  have first1: "sendMessage_settles noImage 0 = Inr chapterOne"
    by (simp add: noImage_def demoEnv_def)
  note fc1 = firstChapter_run [OF first1]
  have art1: "appState (firstChapter noImage) = WaitingForArt"
    by (rule fc1)
  have image1: "fst (generateIllustration noImage ''a ship at sunset''
      (lastChapterText (firstChapter noImage)) (firstChapter noImage)) =
      Inl (Error ''No image generated.'')"
    using fc1 by (simp add: generateIllustration_run, simp add: noImage_def demoEnv_def
        chapterTwo_def partsOf_def)
  have kept1: "lastChapterText (snd (handleUserSend noImage ''a ship at sunset''
      (firstChapter noImage))) = ''**Chapter One** The tide was turning.''"
    using handleUserSend_failure_keeps_lastChapterText
      [of "firstChapter noImage" noImage "''a ship at sunset''" "Error ''No image generated.''"]
      art1 image1 fc1(2)
    by simp
  have first2: "sendMessage_settles writerDownLater 0 = Inr chapterOne"
    by (simp add: writerDownLater_def demoEnv_def)
  note fc2 = firstChapter_run [OF first2]
  have art2: "appState (firstChapter writerDownLater) = WaitingForArt"
    by (rule fc2)
  have image2: "fst (generateIllustration writerDownLater ''a ship at sunset''
      (lastChapterText (firstChapter writerDownLater)) (firstChapter writerDownLater)) =
      Inr ''data:image/png;base64,iVBORw0KGgo=''"
    using fc2 by (simp add: generateIllustration_run, simp add: writerDownLater_def
        demoEnv_def painting_def partsOf_def)
  have writer2: "fst (sendMessageToWriter writerDownLater
      (nextChapterPrompt ''a ship at sunset'') (firstChapter writerDownLater)) =
      Inl unavailable"
    using fc2 by (simp add: sendMessageToWriter_run mounted_run, simp add: writerDownLater_def
        demoEnv_def)
  have kept2: "lastChapterText (snd (handleUserSend writerDownLater ''a ship at sunset''
      (firstChapter writerDownLater))) = ''**Chapter One** The tide was turning.''"
    using handleUserSend_failure_keeps_lastChapterText
      [of "firstChapter writerDownLater" writerDownLater "''a ship at sunset''" unavailable
          "''data:image/png;base64,iVBORw0KGgo=''"]
      art2 image2 writer2 fc2(2)
    by simp
  from in_setup writer0 kept0 art1 image1 kept1 art2 image2 writer2 kept2
  show ?thesis by blast
qed

section \<open>A new story\<close>

text \<open>
  C7. Whatever the world before (any phase, any log, any \<^verbatim>\<open>lastChapterText\<close>),
  \<^verbatim>\<open>handleNewStory\<close> completes and leaves a log of exactly one record, the initial greeting,
  the phase \<^verbatim>\<open>Setup\<close>, an empty \<^verbatim>\<open>lastChapterText\<close>, and as \<^verbatim>\<open>chatSession\<close> the chat that
  a new call of \<^verbatim>\<open>ai.chats.create\<close> has just made: where the session before was one made
  earlier, the new one differs from it.
\<close>

theorem handleNewStory_resets:
  "fst (handleNewStory env w) = Inr () \<and>
   messages (snd (handleNewStory env w)) = [INITIAL_MESSAGE env] \<and>
   length (messages (snd (handleNewStory env w))) = 1 \<and>
   appState (snd (handleNewStory env w)) = Setup \<and>
   lastChapterText (snd (handleNewStory env w)) = [] \<and>
   chatSession (snd (handleNewStory env w)) =
     Some \<lparr>handle = chatsCreated w,
           config = \<lparr>model = ''gemini-2.5-flash'', systemInstruction = SYSTEM_INSTRUCTION,
                     temperature = 8 / 10\<rparr>\<rparr> \<and>
   chatsCreated (snd (handleNewStory env w)) = Suc (chatsCreated w) \<and>
   ((case chatSession w of None \<Rightarrow> True | Some chat \<Rightarrow> handle chat < chatsCreated w) \<longrightarrow>
    chatSession (snd (handleNewStory env w)) \<noteq> chatSession w)"
  by (auto simp: handleNewStory_def eff_defs startStorySession_run Let_def
      split: option.splits)

theorem handleNewStory_resets_witness:
  "(case chatSession (whilePainting allGood) of
      None \<Rightarrow> True
    | Some chat \<Rightarrow> handle chat < chatsCreated (whilePainting allGood)) \<and>
   appState (whilePainting allGood) = Painting \<and>
   length (messages (whilePainting allGood)) = 4 \<and>
   lastChapterText (whilePainting allGood) = ''**Chapter One** The tide was turning.'' \<and>
   messages (snd (handleNewStory allGood (whilePainting allGood))) =
     [INITIAL_MESSAGE allGood] \<and>
   appState (snd (handleNewStory allGood (whilePainting allGood))) = Setup \<and>
   lastChapterText (snd (handleNewStory allGood (whilePainting allGood))) = [] \<and>
   chatSession (snd (handleNewStory allGood (whilePainting allGood))) \<noteq>
     chatSession (whilePainting allGood)"
proof -
  have first: "sendMessage_settles allGood 0 = Inr chapterOne"
    by (simp add: allGood_def demoEnv_def)
  note fc = firstChapter_run [OF first]
  note painting_world = whilePainting_run [OF fc(1)]
  have earlier: "(case chatSession (whilePainting allGood) of
      None \<Rightarrow> True
    | Some chat \<Rightarrow> handle chat < chatsCreated (whilePainting allGood))"
    by (simp add: painting_world fc mounted_run)
  have log: "length (messages (whilePainting allGood)) = 4"
    using arg_cong [OF fc(7), of length] by (simp add: painting_world)
  have last_text: "lastChapterText (whilePainting allGood) =
      ''**Chapter One** The tide was turning.''"
    by (simp add: painting_world fc)
  from handleNewStory_resets [of allGood "whilePainting allGood"] earlier
  have "messages (snd (handleNewStory allGood (whilePainting allGood))) =
          [INITIAL_MESSAGE allGood] \<and>
        appState (snd (handleNewStory allGood (whilePainting allGood))) = Setup \<and>
        lastChapterText (snd (handleNewStory allGood (whilePainting allGood))) = [] \<and>
        chatSession (snd (handleNewStory allGood (whilePainting allGood))) \<noteq>
          chatSession (whilePainting allGood)"
    by blast
  with earlier painting_world(1) last_text log show ?thesis by blast
qed

text \<open>
  In every reachable world there is a session, and it is one of the chats made so far: the
  session that \<^verbatim>\<open>handleNewStory\<close> starts is therefore never the one it replaces.
\<close>

lemma reachable_chatSession_earlier:
  assumes "reachable env w"
  shows "case chatSession w of None \<Rightarrow> False | Some chat \<Rightarrow> handle chat < chatsCreated w"
proof -
  let ?known = "\<lambda>w. case chatSession w of None \<Rightarrow> False
                      | Some chat \<Rightarrow> handle chat < chatsCreated w"
  from assms obtain ps where run: "running env w ps"
    by (auto simp: reachable_def)
  have mounted: "?known (mounted env)"
    by (simp add: mounted_run)
  have reset: "?known (snd (handleNewStory env w))" for w
    by (simp add: handleNewStory_def eff_defs startStorySession_run Let_def)
  have start: "preserves ?known (handleUserSend_start env t)" for t
    by (intro handleUserSend_start_preserves)
      (simp_all add: preserves_def addMessage_run eff_defs await_defs
        split: option.splits sum.splits)
  have resume: "preserves ?known (handleUserSend_resume env p)" for p
    by (intro handleUserSend_resume_preserves)
      (simp_all add: preserves_def addMessage_run eff_defs await_defs
        split: option.splits sum.splits)
  from run mounted reset start resume show ?thesis
    by (rule running_invariant [where P = ?known])
qed

section \<open>The writer client\<close>

text \<open>
  C8. In every reachable world, and in every world with a chat session,
  \<^verbatim>\<open>sendMessageToWriter\<close> throws exactly when the underlying \<^verbatim>\<open>chatSession.sendMessage\<close> call
  fails. When the call is answered, it returns the text of the answer, or the fixed
  fallback sentence when that text is missing or empty.
\<close>

theorem sendMessageToWriter_fails_iff:
  assumes "reachable env w \<or> chatSession w \<noteq> None"
  shows "isl (fst (sendMessageToWriter env message w)) =
           isl (sendMessage_settles env (length (writerCalls w))) \<and>
         (sendMessage_settles env (length (writerCalls w)) = Inr response \<and>
          (text_resp response = None \<or> text_resp response = Some []) \<longrightarrow>
            fst (sendMessageToWriter env message w) = Inr writerFallback) \<and>
         (sendMessage_settles env (length (writerCalls w)) = Inr response \<and>
          text_resp response = Some t \<and> t \<noteq> [] \<longrightarrow>
            fst (sendMessageToWriter env message w) = Inr t)"
proof -
  from assms have "chatSession w \<noteq> None"
    using reachable_chatSession_earlier [of env w] by (auto split: option.splits)
  then show ?thesis
    by (auto simp: sendMessageToWriter_run or_else_def split: option.splits sum.splits)
qed

theorem sendMessageToWriter_fails_iff_witness:
  "reachable emptyWriter (mounted emptyWriter) \<and>
   sendMessage_settles emptyWriter (length (writerCalls (mounted emptyWriter))) =
     Inr emptyReply \<and>
   text_resp emptyReply = Some [] \<and>
   fst (sendMessageToWriter emptyWriter ''Once upon a time'' (mounted emptyWriter)) =
     Inr ''I'm having trouble writing right now. Let's try again.'' \<and>
   chatSession (mounted allGood) \<noteq> None \<and>
   sendMessage_settles allGood (length (writerCalls (mounted allGood))) = Inr chapterOne \<and>
   text_resp chapterOne = Some ''**Chapter One** The tide was turning.'' \<and>
   fst (sendMessageToWriter allGood ''Once upon a time'' (mounted allGood)) =
     Inr ''**Chapter One** The tide was turning.'' \<and>
   reachable writerDown (mounted writerDown) \<and>
   isl (sendMessage_settles writerDown (length (writerCalls (mounted writerDown)))) \<and>
   isl (fst (sendMessageToWriter writerDown ''Once upon a time'' (mounted writerDown)))"
proof -
  have reached: "reachable emptyWriter (mounted emptyWriter)"
    "reachable writerDown (mounted writerDown)"
    by (rule reachable_mounted)+
  have session: "chatSession (mounted allGood) \<noteq> None"
    by (simp add: mounted_run)
  have empty_answer: "sendMessage_settles emptyWriter (length (writerCalls (mounted emptyWriter)))
      = Inr emptyReply"
    by (simp add: mounted_run initialWorld_def emptyWriter_def demoEnv_def)
  have empty_text: "text_resp emptyReply = Some []"
    by (simp add: emptyReply_def)
  have fallback: "fst (sendMessageToWriter emptyWriter ''Once upon a time''
      (mounted emptyWriter)) = Inr ''I'm having trouble writing right now. Let's try again.''"
    using sendMessageToWriter_fails_iff
      [of emptyWriter "mounted emptyWriter" "''Once upon a time''" emptyReply]
      reached(1) empty_answer empty_text
    by (simp add: writerFallback_def)
  have answer: "sendMessage_settles allGood (length (writerCalls (mounted allGood)))
      = Inr chapterOne"
    by (simp add: mounted_run initialWorld_def allGood_def demoEnv_def)
  have answer_text: "text_resp chapterOne = Some ''**Chapter One** The tide was turning.''"
    by (simp add: chapterOne_def)
  have returned: "fst (sendMessageToWriter allGood ''Once upon a time'' (mounted allGood)) =
      Inr ''**Chapter One** The tide was turning.''"
    using sendMessageToWriter_fails_iff
      [of allGood "mounted allGood" "''Once upon a time''" chapterOne
          "''**Chapter One** The tide was turning.''"]
      session answer answer_text
    by simp
  have down: "isl (sendMessage_settles writerDown (length (writerCalls (mounted writerDown))))"
    by (simp add: writerDown_def demoEnv_def)
  have thrown: "isl (fst (sendMessageToWriter writerDown ''Once upon a time''
      (mounted writerDown)))"
    using sendMessageToWriter_fails_iff [of writerDown "mounted writerDown" "''Once upon a time''"]
      reached(2) down
    by blast
  from reached session empty_answer empty_text fallback answer answer_text returned down thrown
  show ?thesis by blast
qed

text \<open>
  The guard at the head of \<^verbatim>\<open>sendMessageToWriter\<close> is for a world without a chat session:
  there the function throws and makes no call. The mount effect starts a session before
  the user can submit, and nothing ends it, so that no reachable world is such a world.
\<close>

lemma sendMessageToWriter_without_session:
  assumes "chatSession w = None"
  shows "sendMessageToWriter env message w = (Inl (Error ''Chat session not initialized.''), w)"
    and "\<not> reachable env w"
  using assms reachable_chatSession_earlier [of env w]
  by (auto simp: sendMessageToWriter_run)

section \<open>Identifiers of the turn records\<close>

lemma idsFollowDraws_addMessage: "preserves (idsFollowDraws env) (addMessage env sndr ty cont)"
proof -
  have "idsFollowDraws env (snd (addMessage env sndr ty cont w))" if "idsFollowDraws env w" for w
  proof -
    from that obtain a where a: "a \<le> randomCalls w"
      and ids: "map id_msg (messages w) =
        ''init'' # map (\<lambda>k. substr 2 9 (random36 env k)) [a..<randomCalls w]"
      by (auto simp: idsFollowDraws_def)
    from a ids show ?thesis
      unfolding idsFollowDraws_def addMessage_run
      by (intro exI [of _ a]) simp
  qed
  then show ?thesis by (simp add: preserves_def)
qed

lemma idsFollowDraws_handleNewStory:
  "idsFollowDraws env (snd (handleNewStory env w))"
  unfolding idsFollowDraws_def
  by (intro exI [of _ "randomCalls w"])
    (simp add: handleNewStory_def eff_defs startStorySession_run Let_def INITIAL_MESSAGE_def)

lemma idsFollowDraws_mounted: "idsFollowDraws env (mounted env)"
  unfolding idsFollowDraws_def
  by (intro exI [of _ 0]) (simp add: mounted_run initialWorld_def INITIAL_MESSAGE_def)

lemma reachable_idsFollowDraws:
  assumes "reachable env w"
  shows "idsFollowDraws env w"
proof -
  from assms obtain ps where run: "running env w ps"
    by (auto simp: reachable_def)
  have start: "preserves (idsFollowDraws env) (handleUserSend_start env t)" for t
    by (intro handleUserSend_start_preserves idsFollowDraws_addMessage)
      (simp_all add: preserves_def idsFollowDraws_def eff_defs await_defs
        split: option.splits sum.splits)
  have resume: "preserves (idsFollowDraws env) (handleUserSend_resume env p)" for p
    by (intro handleUserSend_resume_preserves idsFollowDraws_addMessage)
      (simp_all add: preserves_def idsFollowDraws_def eff_defs await_defs
        split: option.splits sum.splits)
  from run idsFollowDraws_mounted idsFollowDraws_handleNewStory start resume show ?thesis
    by (rule running_invariant [where P = "idsFollowDraws env"])
qed

text \<open>
  C9, as the code has it. In every reachable world (with calls pending or not, reset
  during a pending call or not) the ids of the log are \<^verbatim>\<open>init\<close> followed by the ids that
  \<^verbatim>\<open>generateId\<close> returned for the records added since the last reset, in their order. They
  are therefore pairwise distinct exactly when those returned ids are pairwise distinct
  and none of them is \<^verbatim>\<open>init\<close>, which \<^verbatim>\<open>generateId\<close>, nine base-36 digits of a random number,
  does not see to.
\<close>

theorem reachable_ids:
  assumes "reachable env w"
  shows "map id_msg (messages w) = ''init'' # logDraws env w \<and>
         distinct (map id_msg (messages w)) = distinct (''init'' # logDraws env w)"
proof -
  from reachable_idsFollowDraws [OF assms]
  obtain a where a: "a \<le> randomCalls w"
    and ids: "map id_msg (messages w) =
      ''init'' # map (\<lambda>k. substr 2 9 (random36 env k)) [a..<randomCalls w]"
    by (auto simp: idsFollowDraws_def)
  from arg_cong [OF ids, of length] have "length (messages w) = Suc (randomCalls w - a)"
    by simp
  with a have "Suc (randomCalls w) - length (messages w) = a"
    by simp
  with ids have "map id_msg (messages w) = ''init'' # logDraws env w"
    by (simp add: logDraws_def)
  then show ?thesis by simp
qed

theorem reachable_ids_witness:
  "reachable repeatedDraw (secondStory repeatedDraw) \<and>
   map id_msg (messages (secondStory repeatedDraw)) = [''init'', ''bb5exfivb'', ''e7ove782r''] \<and>
   logDraws repeatedDraw (secondStory repeatedDraw) = [''bb5exfivb'', ''e7ove782r''] \<and>
   distinct (map id_msg (messages (secondStory repeatedDraw))) \<and>
   reachable allGood (resetWhileWriting allGood) \<and>
   map id_msg (messages (resetWhileWriting allGood)) = [''init'', ''e7ove782r''] \<and>
   logDraws allGood (resetWhileWriting allGood) = [''e7ove782r''] \<and>
   distinct (map id_msg (messages (resetWhileWriting allGood)))"
proof -
  have reached: "reachable repeatedDraw (secondStory repeatedDraw)"
    unfolding secondStory_def firstChapter_def
    by (intro reachable_handleUserSend reachable_handleNewStory reachable_mounted)
  have first: "sendMessage_settles repeatedDraw 0 = Inr chapterOne"
    and second: "sendMessage_settles repeatedDraw (Suc 0) = Inr chapterOne"
    by (simp_all add: repeatedDraw_def demoEnv_def)
  note fc = firstChapter_run [OF first]
  have calls: "randomCalls (secondStory repeatedDraw) = 4"
    and log: "length (messages (secondStory repeatedDraw)) = 3"
    using fc second
    by (simp_all add: secondStory_def handleUserSend_def handleNewStory_def eff_defs
        addMessage_run sendMessageToWriter_run startStorySession_run Let_def)
  have draws: "logDraws repeatedDraw (secondStory repeatedDraw) = [''bb5exfivb'', ''e7ove782r'']"
    by (simp add: logDraws_def calls log upt_rec,
        simp add: substr_def repeatedDraw_def demoEnv_def)
  from reachable_ids [OF reached] draws
  have ids: "map id_msg (messages (secondStory repeatedDraw)) =
      [''init'', ''bb5exfivb'', ''e7ove782r'']"
    and apart: "distinct (map id_msg (messages (secondStory repeatedDraw)))"
    by simp_all
  have waiting: "suspended (fst (handleUserSend_start allGood ''a pirate adventure''
      (mounted allGood))) = [AwaitFirstChapter 0]"
    by (simp add: suspended_def await_defs eff_defs addMessage_run mounted_run
        initialWorld_def)
  have "running allGood (whileWriting allGood) ([] @ [AwaitFirstChapter 0])"
    using running.submit [OF running.mount, of allGood "''a pirate adventure''"]
    by (simp add: whileWriting_def waiting)
  then have "running allGood (snd (handleNewStory allGood (whileWriting allGood)))
      ([] @ AwaitFirstChapter 0 # [])"
    using running.newStory by simp
  from running.settle [OF this] have reached': "reachable allGood (resetWhileWriting allGood)"
    unfolding reachable_def resetWhileWriting_def by blast
  have answer: "sendMessage_settles allGood 0 = Inr chapterOne"
    by (simp add: allGood_def demoEnv_def)
  have calls': "randomCalls (resetWhileWriting allGood) = 2"
    and log': "length (messages (resetWhileWriting allGood)) = 2"
    using answer
    by (simp_all add: resetWhileWriting_def whileWriting_def handleNewStory_def await_defs
        eff_defs addMessage_run startStorySession_run Let_def mounted_run initialWorld_def)
  have draws': "logDraws allGood (resetWhileWriting allGood) = [''e7ove782r'']"
    by (simp add: logDraws_def calls' log' upt_rec,
        simp add: substr_def allGood_def demoEnv_def demoRandom36_def)
  from reachable_ids [OF reached'] draws'
  have ids': "map id_msg (messages (resetWhileWriting allGood)) = [''init'', ''e7ove782r'']"
    and apart': "distinct (map id_msg (messages (resetWhileWriting allGood)))"
    by simp_all
  from reached ids draws apart reached' ids' draws' apart' show ?thesis by blast
qed

text \<open>
  C9, as the specification states it, fails: two different random numbers that share their
  first nine base-36 digits give the user's turn and the writer's turn the same id.
\<close>

theorem reachable_ids_distinct_counterexample:
  "reachable closeDraws (firstChapter closeDraws) \<and>
   map id_msg (messages (firstChapter closeDraws)) = [''init'', ''bb5exfivb'', ''bb5exfivb''] \<and>
   \<not> distinct (map id_msg (messages (firstChapter closeDraws)))"
proof -
  have reached: "reachable closeDraws (firstChapter closeDraws)"
    unfolding firstChapter_def by (intro reachable_handleUserSend reachable_mounted)
  have first: "sendMessage_settles closeDraws 0 = Inr chapterOne"
    by (simp add: closeDraws_def demoEnv_def)
  have ids: "map id_msg (messages (firstChapter closeDraws)) =
      [''init'', ''bb5exfivb'', ''bb5exfivb'']"
    by (simp add: firstChapter_run [OF first], simp add: substr_def closeDraws_def demoEnv_def)
  from reached ids show ?thesis by simp
qed

end
